theory Spec2Isabelle
  imports Main
begin

section \<open>Subscription lifecycle: data model\<close>

text \<open>
  The Subscription collection (\<^verbatim>\<open>subscriptionSchema\<close>, \<^verbatim>\<open>ISubscription\<close>) is modelled as a
  list of documents in the order \<^verbatim>\<open>findOne\<close> scans them. Dates are milliseconds since the
  epoch. The fields are those of \<^verbatim>\<open>ISubscription\<close>, the two timestamps that the schema
  option \<^verbatim>\<open>timestamps: true\<close> maintains included. The fields that
  \<^verbatim>\<open>verifyAndSaveSubscription\<close> never writes are optional, because its upsert creates
  documents without them; \<open>None\<close> is a missing field.
\<close>

datatype tier = Basic | Premium

datatype status = Active | Expired | Cancelled | Paused | Pending | Failed

datatype purchaseType = SubscriptionPurchase | OneTime

record subscription =
  userId :: string
  subscriptionId :: string
  productId :: string
  purchaseToken :: string
  tier :: tier
  status :: status
  startDate :: int
  expiryDate :: int
  autoRenewing :: bool
  paymentState :: "int option"
  priceAmount :: "int option"
  priceCurrency :: "string option"
  countryCode :: "string option"
  developerPayload :: "string option"
  orderId :: "string option"
  purchaseType :: purchaseType
  gracePeriodEndDate :: "int option"
  trialEndDate :: "int option"
  createdAt :: int
  updatedAt :: int

text \<open>
  Exceptions are values. \<^verbatim>\<open>CustomError(message, statusCode)\<close> is the repository's own
  error class; every other exception (a \<^verbatim>\<open>TypeError\<close>, a validation error of Mongoose,
  a duplicate key error of the database) is \<open>OtherError\<close>.
\<close>

datatype error = CustomError string nat | OtherError string

text \<open>
  The handler that closes the controllers:
  \<^verbatim>\<open>catch (error) { if (error instanceof CustomError) throw error;
                   throw new CustomError(msg, 500); }\<close>
\<close>

fun rethrow :: "string \<Rightarrow> error + 'a \<Rightarrow> error + 'a" where
  "rethrow msg (Inl (CustomError m c)) = Inl (CustomError m c)"
| "rethrow msg (Inl (OtherError m)) = Inl (CustomError msg 500)"
| "rethrow msg (Inr v) = Inr v"

subsection \<open>The billing verification client\<close>

text \<open>
  \<^verbatim>\<open>GooglePlayService\<close> talks to the app store, so the controllers take it as a
  parameter: two functions that either throw or return. \<^verbatim>\<open>SubscriptionVerificationResult\<close>
  is the record it returns. Every call the controllers make to it is appended to
  \<open>billingCalls\<close>, the trace of external calls.
\<close>

record verificationResult =
  isValid :: bool
  vr_tier :: tier
  vr_expiryDate :: int

record googlePlayService =
  verifySubscription :: "string \<Rightarrow> string \<Rightarrow> string \<Rightarrow> error + verificationResult"
  acknowledgeSubscription :: "string \<Rightarrow> string \<Rightarrow> string \<Rightarrow> error + unit"

datatype billingCall =
  VerifyCall string string string
| AcknowledgeCall string string string

record world =
  subscriptions :: "subscription list"
  billingCalls :: "billingCall list"

subsection \<open>Collection operations\<close>

text \<open>\<^verbatim>\<open>Model.findOne(filter)\<close>: the position of the first document that matches.\<close>

fun findOne :: "('a \<Rightarrow> bool) \<Rightarrow> 'a list \<Rightarrow> nat option" where
  "findOne p [] = None"
| "findOne p (d # ds) =
     (if p d then Some 0 else (case findOne p ds of None \<Rightarrow> None | Some i \<Rightarrow> Some (Suc i)))"

text \<open>
  The validators that \<^verbatim>\<open>document.save()\<close> runs before it writes: the schema marks
  \<^verbatim>\<open>subscriptionId\<close>, \<^verbatim>\<open>productId\<close>, \<^verbatim>\<open>purchaseToken\<close>, \<^verbatim>\<open>paymentState\<close>,
  \<^verbatim>\<open>priceAmount\<close>, \<^verbatim>\<open>priceCurrency\<close>, \<^verbatim>\<open>countryCode\<close> and \<^verbatim>\<open>orderId\<close> as
  \<^verbatim>\<open>required: true\<close>, which a missing field fails and, for a string, the empty string
  too. (The other required fields, \<^verbatim>\<open>userId\<close>, \<^verbatim>\<open>tier\<close>, \<^verbatim>\<open>startDate\<close> and
  \<^verbatim>\<open>expiryDate\<close>, and the enumerations are always present and well-formed in this
  record type.)
\<close>

definition passesValidators :: "subscription \<Rightarrow> bool" where
  "passesValidators s =
     (subscriptionId s \<noteq> [] \<and> productId s \<noteq> [] \<and> purchaseToken s \<noteq> []
      \<and> paymentState s \<noteq> None \<and> priceAmount s \<noteq> None
      \<and> priceCurrency s \<noteq> None \<and> priceCurrency s \<noteq> Some []
      \<and> countryCode s \<noteq> None \<and> countryCode s \<noteq> Some []
      \<and> orderId s \<noteq> None \<and> orderId s \<noteq> Some [])"

text \<open>
  \<^verbatim>\<open>timestamps: true\<close> on \<^verbatim>\<open>save()\<close>: a document whose assignments changed a value
  gets \<^verbatim>\<open>updatedAt\<close> set to the time of the save; an unchanged document is left alone.
\<close>

definition stamp :: "int \<Rightarrow> subscription \<Rightarrow> subscription \<Rightarrow> subscription" where
  "stamp now old new = (if new = old then new else new\<lparr>updatedAt := now\<rparr>)"

text \<open>
  \<^verbatim>\<open>subscription.save()\<close>, for a document \<open>old\<close> read by \<^verbatim>\<open>findOne\<close> and changed by
  assignments into \<open>new\<close>: it throws a validation error when a validator fails, and
  otherwise yields the document that is written back. The handlers assign to
  \<^verbatim>\<open>status\<close>, \<^verbatim>\<open>expiryDate\<close> and \<^verbatim>\<open>autoRenewing\<close> only, so no unique index is touched.
\<close>

definition save :: "int \<Rightarrow> subscription \<Rightarrow> subscription \<Rightarrow> error + subscription" where
  "save now old new =
     (if passesValidators new then Inr (stamp now old new)
      else Inl (OtherError ''ValidationError''))"

text \<open>
  The unique indexes of the schema, on \<^verbatim>\<open>orderId\<close> and on \<^verbatim>\<open>purchaseToken\<close>. A write is
  rejected with a duplicate key error when it gives a document an index key that
  another document of the collection holds already; a missing \<^verbatim>\<open>orderId\<close> is the key
  \<^verbatim>\<open>null\<close>. \<open>old\<close> is the document before the write (\<open>None\<close> for an insert), \<open>rest\<close> the
  other documents.
\<close>

definition others :: "nat \<Rightarrow> 'a list \<Rightarrow> 'a list" where
  "others i ds = take i ds @ drop (Suc i) ds"

definition duplicateKey :: "subscription option \<Rightarrow> subscription \<Rightarrow> subscription list \<Rightarrow> bool" where
  "duplicateKey old new rest =
     (((case old of None \<Rightarrow> True | Some d \<Rightarrow> purchaseToken d \<noteq> purchaseToken new)
         \<and> list_ex (\<lambda>d. purchaseToken d = purchaseToken new) rest)
      \<or> ((case old of None \<Rightarrow> True | Some d \<Rightarrow> orderId d \<noteq> orderId new)
         \<and> list_ex (\<lambda>d. orderId d = orderId new) rest))"

text \<open>
  \<^verbatim>\<open>Subscription.findOneAndUpdate(filter, update, {upsert: true, new: true})\<close>: the first
  match is updated in place; with no match the document \<open>ins\<close> is inserted. No validator
  runs (\<^verbatim>\<open>runValidators\<close> is not set), the unique indexes are enforced, and the new
  document is returned.
\<close>

definition findOneAndUpdate ::
  "(subscription \<Rightarrow> bool) \<Rightarrow> (subscription \<Rightarrow> subscription) \<Rightarrow> subscription \<Rightarrow> subscription list
     \<Rightarrow> error + subscription \<times> subscription list" where
  "findOneAndUpdate p upd ins ds =
     (case findOne p ds of
        Some i \<Rightarrow>
          (let new = upd (ds ! i) in
           if duplicateKey (Some (ds ! i)) new (others i ds)
           then Inl (OtherError ''E11000 duplicate key error'')
           else Inr (new, ds[i := new]))
      | None \<Rightarrow>
          if duplicateKey None ins ds then Inl (OtherError ''E11000 duplicate key error'')
          else Inr (ins, ds @ [ins]))"

section \<open>Subscription lifecycle: the controllers\<close>

text \<open>
  Each controller takes \<open>now\<close>, the reading of the clock during the request
  (\<^verbatim>\<open>new Date()\<close> in the controller and the time Mongoose stamps a write with are
  taken as one instant).
\<close>

subsection \<open>verifyAndSaveSubscription\<close>

record verifyBody =
  vb_packageName :: string
  vb_subscriptionId :: string
  vb_purchaseToken :: string

text \<open>
  The update document of the upsert, applied to an existing record; the write stamps
  \<^verbatim>\<open>updatedAt\<close>.
\<close>

definition verifiedUpdate ::
  "string \<Rightarrow> string \<Rightarrow> string \<Rightarrow> verificationResult \<Rightarrow> int \<Rightarrow> subscription \<Rightarrow> subscription" where
  "verifiedUpdate uid sid tok vr now s =
     s\<lparr>userId := uid, subscriptionId := sid, productId := sid, purchaseToken := tok,
       tier := vr_tier vr, status := Active, startDate := now,
       expiryDate := vr_expiryDate vr, autoRenewing := True, updatedAt := now\<rparr>"

text \<open>
  The document the upsert inserts when nothing matches: the fields of the update
  document, the schema default of \<^verbatim>\<open>purchaseType\<close>, the two timestamps, and nothing
  else.
\<close>

definition verifiedInsert ::
  "string \<Rightarrow> string \<Rightarrow> string \<Rightarrow> verificationResult \<Rightarrow> int \<Rightarrow> subscription" where
  "verifiedInsert uid sid tok vr now =
     \<lparr>userId = uid, subscriptionId = sid, productId = sid, purchaseToken = tok,
      tier = vr_tier vr, status = Active, startDate = now,
      expiryDate = vr_expiryDate vr, autoRenewing = True,
      paymentState = None, priceAmount = None, priceCurrency = None, countryCode = None,
      developerPayload = None, orderId = None, purchaseType = SubscriptionPurchase,
      gracePeriodEndDate = None, trialEndDate = None, createdAt = now, updatedAt = now\<rparr>"

text \<open>
  The body of the \<^verbatim>\<open>try\<close> block. \<open>user\<close> is \<^verbatim>\<open>req.user?._id\<close>. The result is the
  \<^verbatim>\<open>data\<close> of the JSON answer.
\<close>

definition verifyAndSaveSubscription_try ::
  "googlePlayService \<Rightarrow> int \<Rightarrow> string option \<Rightarrow> verifyBody \<Rightarrow> world
     \<Rightarrow> (error + subscription) \<times> world" where
  "verifyAndSaveSubscription_try gp now user body w =
     (let pkg = vb_packageName body; sid = vb_subscriptionId body; tok = vb_purchaseToken body in
      case user of
        None \<Rightarrow> (Inl (CustomError ''User not authenticated'' 401), w)
      | Some uid \<Rightarrow>
          (let w1 = w\<lparr>billingCalls := billingCalls w @ [VerifyCall pkg sid tok]\<rparr> in
           case verifySubscription gp pkg sid tok of
             Inl e \<Rightarrow> (Inl e, w1)
           | Inr vr \<Rightarrow>
               if \<not> isValid vr then (Inl (CustomError ''Invalid subscription'' 400), w1)
               else
                 (case findOneAndUpdate (\<lambda>s. userId s = uid \<and> subscriptionId s = sid)
                         (verifiedUpdate uid sid tok vr now)
                         (verifiedInsert uid sid tok vr now) (subscriptions w1) of
                    Inl e \<Rightarrow> (Inl e, w1)
                  | Inr (sub, ds) \<Rightarrow>
                      (let w2 = w1\<lparr>subscriptions := ds,
                                   billingCalls := billingCalls w1 @ [AcknowledgeCall pkg sid tok]\<rparr>
                       in case acknowledgeSubscription gp pkg sid tok of
                            Inl e \<Rightarrow> (Inl e, w2)
                          | Inr _ \<Rightarrow> (Inr sub, w2)))))"

definition verifyAndSaveSubscription ::
  "googlePlayService \<Rightarrow> int \<Rightarrow> string option \<Rightarrow> verifyBody \<Rightarrow> world
     \<Rightarrow> (error + subscription) \<times> world" where
  "verifyAndSaveSubscription gp now user body w =
     (let (r, w') = verifyAndSaveSubscription_try gp now user body w
      in (rethrow ''Error processing subscription'' r, w'))"

subsection \<open>cancelSubscription\<close>



subsection \<open>The webhook\<close>

text \<open>
  The decoded notification: the JSON object that
  \<^verbatim>\<open>JSON.parse(Buffer.from(message.data, 'base64').toString())\<close> yields, with the four
  fields the handlers read. A request on which that line (or the read of
  \<^verbatim>\<open>data.notificationType\<close>) throws is \<open>Undecodable\<close>.
\<close>

record notification =
  notificationType :: string
  n_subscriptionId :: string
  n_purchaseToken :: string
  n_packageName :: string

datatype webhookRequest = Undecodable | Envelope notification

record response =
  statusCode :: nat
  sent :: string

text \<open>
  The handlers of the notification types. Each looks the record up by
  \<^verbatim>\<open>subscriptionId\<close> alone and returns when there is none; \<^verbatim>\<open>subscription.save()\<close>
  validates the changed document and writes it back in its place, or throws.
\<close>

definition handleSubscriptionRenewal ::
  "googlePlayService \<Rightarrow> int \<Rightarrow> notification \<Rightarrow> world \<Rightarrow> (error + unit) \<times> world" where
  "handleSubscriptionRenewal gp now d w =
     (case findOne (\<lambda>s. subscriptionId s = n_subscriptionId d) (subscriptions w) of
        None \<Rightarrow> (Inr (), w)
      | Some i \<Rightarrow>
          (let subscription = subscriptions w ! i;
               w1 = w\<lparr>billingCalls := billingCalls w @
                      [VerifyCall (n_packageName d) (n_subscriptionId d) (n_purchaseToken d)]\<rparr> in
           case verifySubscription gp (n_packageName d) (n_subscriptionId d) (n_purchaseToken d) of
             Inl e \<Rightarrow> (Inl e, w1)
           | Inr vr \<Rightarrow>
               if isValid vr
               then (case save now subscription (subscription\<lparr>status := Active, expiryDate := vr_expiryDate vr, autoRenewing := True\<rparr>) of
                       Inl e \<Rightarrow> (Inl e, w1)
                     | Inr s \<Rightarrow> (Inr (), w1\<lparr>subscriptions := (subscriptions w1)[i := s]\<rparr>))
               else (Inr (), w1)))"

definition handleSubscriptionExpiry ::
  "int \<Rightarrow> notification \<Rightarrow> world \<Rightarrow> (error + unit) \<times> world" where
  "handleSubscriptionExpiry now d w =
     (case findOne (\<lambda>s. subscriptionId s = n_subscriptionId d) (subscriptions w) of
        None \<Rightarrow> (Inr (), w)
      | Some i \<Rightarrow>
          (let subscription = subscriptions w ! i in
           case save now subscription (subscription\<lparr>status := Expired, autoRenewing := False\<rparr>) of
             Inl e \<Rightarrow> (Inl e, w)
           | Inr s \<Rightarrow> (Inr (), w\<lparr>subscriptions := (subscriptions w)[i := s]\<rparr>)))"

definition handleSubscriptionRecovery ::
  "googlePlayService \<Rightarrow> int \<Rightarrow> notification \<Rightarrow> world \<Rightarrow> (error + unit) \<times> world" where
  "handleSubscriptionRecovery gp now d w =
     (case findOne (\<lambda>s. subscriptionId s = n_subscriptionId d) (subscriptions w) of
        None \<Rightarrow> (Inr (), w)
      | Some i \<Rightarrow>
          (let subscription = subscriptions w ! i;
               w1 = w\<lparr>billingCalls := billingCalls w @
                      [VerifyCall (n_packageName d) (n_subscriptionId d) (n_purchaseToken d)]\<rparr> in
           case verifySubscription gp (n_packageName d) (n_subscriptionId d) (n_purchaseToken d) of
             Inl e \<Rightarrow> (Inl e, w1)
           | Inr vr \<Rightarrow>
               if isValid vr
               then (case save now subscription (subscription\<lparr>status := Active, expiryDate := vr_expiryDate vr\<rparr>) of
                       Inl e \<Rightarrow> (Inl e, w1)
                     | Inr s \<Rightarrow> (Inr (), w1\<lparr>subscriptions := (subscriptions w1)[i := s]\<rparr>))
               else (Inr (), w1)))"

definition handleSubscriptionPause ::
  "int \<Rightarrow> notification \<Rightarrow> world \<Rightarrow> (error + unit) \<times> world" where
  "handleSubscriptionPause now d w =
     (case findOne (\<lambda>s. subscriptionId s = n_subscriptionId d) (subscriptions w) of
        None \<Rightarrow> (Inr (), w)
      | Some i \<Rightarrow>
          (let subscription = subscriptions w ! i in
           case save now subscription (subscription\<lparr>status := Paused\<rparr>) of
             Inl e \<Rightarrow> (Inl e, w)
           | Inr s \<Rightarrow> (Inr (), w\<lparr>subscriptions := (subscriptions w)[i := s]\<rparr>)))"

definition handleSubscriptionRestart ::
  "googlePlayService \<Rightarrow> int \<Rightarrow> notification \<Rightarrow> world \<Rightarrow> (error + unit) \<times> world" where
  "handleSubscriptionRestart gp now d w =
     (case findOne (\<lambda>s. subscriptionId s = n_subscriptionId d) (subscriptions w) of
        None \<Rightarrow> (Inr (), w)
      | Some i \<Rightarrow>
          (let subscription = subscriptions w ! i;
               w1 = w\<lparr>billingCalls := billingCalls w @
                      [VerifyCall (n_packageName d) (n_subscriptionId d) (n_purchaseToken d)]\<rparr> in
           case verifySubscription gp (n_packageName d) (n_subscriptionId d) (n_purchaseToken d) of
             Inl e \<Rightarrow> (Inl e, w1)
           | Inr vr \<Rightarrow>
               if isValid vr
               then (case save now subscription (subscription\<lparr>status := Active, expiryDate := vr_expiryDate vr\<rparr>) of
                       Inl e \<Rightarrow> (Inl e, w1)
                     | Inr s \<Rightarrow> (Inr (), w1\<lparr>subscriptions := (subscriptions w1)[i := s]\<rparr>))
               else (Inr (), w1)))"

definition handleSubscriptionProration ::
  "googlePlayService \<Rightarrow> int \<Rightarrow> notification \<Rightarrow> world \<Rightarrow> (error + unit) \<times> world" where
  "handleSubscriptionProration gp now d w =
     (case findOne (\<lambda>s. subscriptionId s = n_subscriptionId d) (subscriptions w) of
        None \<Rightarrow> (Inr (), w)
      | Some i \<Rightarrow>
          (let subscription = subscriptions w ! i;
               w1 = w\<lparr>billingCalls := billingCalls w @
                      [VerifyCall (n_packageName d) (n_subscriptionId d) (n_purchaseToken d)]\<rparr> in
           case verifySubscription gp (n_packageName d) (n_subscriptionId d) (n_purchaseToken d) of
             Inl e \<Rightarrow> (Inl e, w1)
           | Inr vr \<Rightarrow>
               if isValid vr
               then (case save now subscription (subscription\<lparr>expiryDate := vr_expiryDate vr\<rparr>) of
                       Inl e \<Rightarrow> (Inl e, w1)
                     | Inr s \<Rightarrow> (Inr (), w1\<lparr>subscriptions := (subscriptions w1)[i := s]\<rparr>))
               else (Inr (), w1)))"

definition handleSubscriptionDeferral ::
  "googlePlayService \<Rightarrow> int \<Rightarrow> notification \<Rightarrow> world \<Rightarrow> (error + unit) \<times> world" where
  "handleSubscriptionDeferral gp now d w =
     (case findOne (\<lambda>s. subscriptionId s = n_subscriptionId d) (subscriptions w) of
        None \<Rightarrow> (Inr (), w)
      | Some i \<Rightarrow>
          (let subscription = subscriptions w ! i;
               w1 = w\<lparr>billingCalls := billingCalls w @
                      [VerifyCall (n_packageName d) (n_subscriptionId d) (n_purchaseToken d)]\<rparr> in
           case verifySubscription gp (n_packageName d) (n_subscriptionId d) (n_purchaseToken d) of
             Inl e \<Rightarrow> (Inl e, w1)
           | Inr vr \<Rightarrow>
               if isValid vr
               then (case save now subscription (subscription\<lparr>expiryDate := vr_expiryDate vr\<rparr>) of
                       Inl e \<Rightarrow> (Inl e, w1)
                     | Inr s \<Rightarrow> (Inr (), w1\<lparr>subscriptions := (subscriptions w1)[i := s]\<rparr>))
               else (Inr (), w1)))"

text \<open>The \<^verbatim>\<open>switch\<close> on \<^verbatim>\<open>data.notificationType\<close>; the default case only logs.\<close>

definition dispatch ::
  "googlePlayService \<Rightarrow> int \<Rightarrow> notification \<Rightarrow> world \<Rightarrow> (error + unit) \<times> world" where
  "dispatch gp now d w =
     (let t = notificationType d in
      if t = ''SUBSCRIPTION_PURCHASED'' \<or> t = ''SUBSCRIPTION_RENEWED''
        then handleSubscriptionRenewal gp now d w
      else if t = ''SUBSCRIPTION_EXPIRED'' \<or> t = ''SUBSCRIPTION_CANCELED''
        then handleSubscriptionExpiry now d w
      else if t = ''SUBSCRIPTION_RECOVERED'' then handleSubscriptionRecovery gp now d w
      else if t = ''SUBSCRIPTION_PAUSED'' then handleSubscriptionPause now d w
      else if t = ''SUBSCRIPTION_RESTARTED'' then handleSubscriptionRestart gp now d w
      else if t = ''SUBSCRIPTION_PRORATED'' then handleSubscriptionProration gp now d w
      else if t = ''SUBSCRIPTION_DEFERRED'' then handleSubscriptionDeferral gp now d w
      else (Inr (), w))"

text \<open>
  \<^verbatim>\<open>handleSubscriptionWebhook\<close>: one \<^verbatim>\<open>try\<close> block holds the decoding and the
  dispatch, and its \<^verbatim>\<open>catch\<close> answers 500 whatever was thrown.
\<close>

definition handleSubscriptionWebhook ::
  "googlePlayService \<Rightarrow> int \<Rightarrow> webhookRequest \<Rightarrow> world \<Rightarrow> response \<times> world" where
  "handleSubscriptionWebhook gp now req w =
     (case req of
        Undecodable \<Rightarrow> (\<lparr>statusCode = 500, sent = ''Error processing webhook''\<rparr>, w)
      | Envelope d \<Rightarrow>
          (case dispatch gp now d w of
             (Inl e, w') \<Rightarrow> (\<lparr>statusCode = 500, sent = ''Error processing webhook''\<rparr>, w')
           | (Inr u, w') \<Rightarrow> (\<lparr>statusCode = 200, sent = ''OK''\<rparr>, w')))"

section \<open>Notification dispatch\<close>

subsection \<open>Quiet hours\<close>

record QuietHours =
  enabled :: bool
  startTime :: string
  endTime :: string
  timezone :: string

text \<open>
  The clock: \<open>now\<close> is \<^verbatim>\<open>new Date()\<close> in milliseconds since the epoch, and
  \<open>toZonedTime\<close> is the function of that name of \<^verbatim>\<open>date-fns-tz\<close>, whose result
  carries the wall-clock time of the given zone. Both belong to the environment.
\<close>

record clock =
  now :: int
  toZonedTime :: "int \<Rightarrow> string \<Rightarrow> int"

text \<open>\<^verbatim>\<open>s.split(':')\<close>\<close>

fun split_colon :: "string \<Rightarrow> string list" where
  "split_colon [] = [[]]"
| "split_colon (c # cs) =
     (if c = CHR '':'' then [] # split_colon cs
      else (case split_colon cs of [] \<Rightarrow> [[c]] | p # ps \<Rightarrow> (c # p) # ps))"

text \<open>
  \<^verbatim>\<open>Number(s)\<close> on a string of decimal digits, which is what an \<^verbatim>\<open>HH:mm\<close> string
  splits into; \<open>None\<close> is \<^verbatim>\<open>NaN\<close>. The other numeric literals of JavaScript (signs,
  blanks, fractions, exponents, other bases) are not modelled, and the theorems below
  are stated for strings in the \<^verbatim>\<open>HH:mm\<close> format only.
\<close>

definition isDigit :: "char \<Rightarrow> bool" where
  "isDigit c = (c \<in> set ''0123456789'')"

definition digitValue :: "char \<Rightarrow> int" where
  "digitValue c = int (of_char c) - 48"

definition Number :: "string \<Rightarrow> int option" where
  "Number s =
     (if list_all isDigit s then Some (foldl (\<lambda>a c. 10 * a + digitValue c) 0 s) else None)"

text \<open>
  \<^verbatim>\<open>const [h, m] = s.split(':').map(Number)\<close>: the first two elements; a missing
  one is \<^verbatim>\<open>undefined\<close>, which \<^verbatim>\<open>setHours\<close> turns into \<^verbatim>\<open>NaN\<close>.
\<close>

definition hourMinute :: "string \<Rightarrow> int option \<times> int option" where
  "hourMinute s =
     (case map Number (split_colon s) of
        [] \<Rightarrow> (None, None)
      | [h] \<Rightarrow> (h, None)
      | h # m # _ \<Rightarrow> (h, m))"

text \<open>
  \<^verbatim>\<open>d.setHours(h, m, 0, 0)\<close> on a copy of \<open>t\<close>: the same calendar day, at \<open>h:m\<close>.
  \<open>None\<close> is the invalid date that a \<^verbatim>\<open>NaN\<close> argument gives. Days have 24 hours:
  the result of \<^verbatim>\<open>toZonedTime\<close> is read as a plain wall-clock value.
\<close>

definition msPerDay :: int where
  "msPerDay = 86400000"

definition setHours :: "int \<Rightarrow> int option \<Rightarrow> int option \<Rightarrow> int option" where
  "setHours t h m =
     (case (h, m) of
        (Some h', Some m') \<Rightarrow> Some (t - t mod msPerDay + h' * 3600000 + m' * 60000)
      | _ \<Rightarrow> None)"

text \<open>
  \<^verbatim>\<open>isWithinQuietHours\<close>. A comparison with an invalid date is false, so an invalid
  bound makes the result false.
\<close>

definition isWithinQuietHours :: "clock \<Rightarrow> QuietHours \<Rightarrow> bool" where
  "isWithinQuietHours clk q =
     (if \<not> enabled q then False
      else
        (let userTime = toZonedTime clk (now clk) (timezone q);
             (startHour, startMinute) = hourMinute (startTime q);
             (endHour, endMinute) = hourMinute (endTime q);
             startT = setHours userTime startHour startMinute;
             endT = setHours userTime endHour endMinute
         in case (startT, endT) of
              (Some s, Some e) \<Rightarrow>
                (let e' = (if e < s then e + msPerDay else e)
                 in s \<le> userTime \<and> userTime \<le> e')
            | _ \<Rightarrow> False))"

text \<open>
  The format that \<^verbatim>\<open>quietHoursSchema\<close> accepts:
  \<^verbatim>\<open>/^([01]?[0-9]|2[0-3]):[0-5][0-9]$/\<close>.
\<close>

fun timeRegex :: "string \<Rightarrow> bool" where
  "timeRegex [h, c, m1, m2] =
     (isDigit h \<and> c = CHR '':'' \<and> m1 \<in> set ''012345'' \<and> isDigit m2)"
| "timeRegex [h1, h2, c, m1, m2] =
     (((h1 \<in> set ''01'' \<and> isDigit h2) \<or> (h1 = CHR ''2'' \<and> h2 \<in> set ''0123''))
      \<and> c = CHR '':'' \<and> m1 \<in> set ''012345'' \<and> isDigit m2)"
| "timeRegex _ = False"

subsection \<open>Preferences and device tokens\<close>

record notificationPreferences =
  np_userId :: string
  newWallpapers :: bool
  trendingWallpapers :: bool
  subscriptionUpdates :: bool
  systemUpdates :: bool
  marketingUpdates :: bool
  quietHours :: QuietHours

datatype preferenceType =
  NewWallpapers | TrendingWallpapers | SubscriptionUpdates | SystemUpdates | MarketingUpdates

text \<open>\<^verbatim>\<open>preferences[type]\<close> and the name of the type in the log line.\<close>

fun switch :: "notificationPreferences \<Rightarrow> preferenceType \<Rightarrow> bool" where
  "switch p NewWallpapers = newWallpapers p"
| "switch p TrendingWallpapers = trendingWallpapers p"
| "switch p SubscriptionUpdates = subscriptionUpdates p"
| "switch p SystemUpdates = systemUpdates p"
| "switch p MarketingUpdates = marketingUpdates p"

fun typeName :: "preferenceType \<Rightarrow> string" where
  "typeName NewWallpapers = ''newWallpapers''"
| "typeName TrendingWallpapers = ''trendingWallpapers''"
| "typeName SubscriptionUpdates = ''subscriptionUpdates''"
| "typeName SystemUpdates = ''systemUpdates''"
| "typeName MarketingUpdates = ''marketingUpdates''"

datatype deviceType = Android | Ios | Web

record deviceToken =
  dt_userId :: string
  token :: string
  deviceType :: deviceType
  deviceId :: string
  isActive :: bool
  lastUsed :: int

subsection \<open>The push client\<close>

datatype notificationPriority = High | Normal

datatype androidPriority = PriorityDefault | PriorityMin | PriorityMax | PriorityHigh | PriorityLow

definition mapPriority :: "notificationPriority \<Rightarrow> androidPriority" where
  "mapPriority p = (if p = Normal then PriorityDefault else PriorityHigh)"

record options =
  priority :: "notificationPriority option"
  ttl :: "int option"
  collapseKey :: "string option"
  badge :: "int option"
  sound :: "string option"

text \<open>
  The multicast message, without its constant parts (channel, default sound and
  vibration). \<open>apns_expiration\<close> is the number whose decimal digits the header carries.
\<close>

record multicastMessage =
  tokens :: "string list"
  title :: string
  body :: string
  data :: "(string \<times> string) list option"
  android_priority :: notificationPriority
  android_ttl :: "int option"
  android_collapseKey :: "string option"
  android_notification_priority :: androidPriority
  android_notification_sound :: "string option"
  apns_sound :: string
  apns_badge :: int
  apns_priority :: string
  apns_expiration :: int

text \<open>\<^verbatim>\<open>options?.f\<close>, and the truthiness of a number and of a string.\<close>

definition opt :: "options option \<Rightarrow> (options \<Rightarrow> 'a option) \<Rightarrow> 'a option" where
  "opt os f = (case os of None \<Rightarrow> None | Some o' \<Rightarrow> f o')"

definition truthyNumber :: "int option \<Rightarrow> int option" where
  "truthyNumber n = (case n of Some k \<Rightarrow> (if k = 0 then None else Some k) | None \<Rightarrow> None)"

definition truthyString :: "string option \<Rightarrow> string option" where
  "truthyString s = (case s of Some t \<Rightarrow> (if t = [] then None else Some t) | None \<Rightarrow> None)"

definition multicast ::
  "string list \<Rightarrow> string \<Rightarrow> string \<Rightarrow> (string \<times> string) list option \<Rightarrow> options option
     \<Rightarrow> multicastMessage" where
  "multicast ts ti bo da os =
     \<lparr>tokens = ts, title = ti, body = bo, data = da,
      android_priority = (case opt os priority of Some p \<Rightarrow> p | None \<Rightarrow> High),
      android_ttl = (case truthyNumber (opt os ttl) of Some k \<Rightarrow> Some (k * 1000) | None \<Rightarrow> None),
      android_collapseKey = opt os collapseKey,
      android_notification_priority =
        mapPriority (case opt os priority of Some p \<Rightarrow> p | None \<Rightarrow> High),
      android_notification_sound = opt os sound,
      apns_sound = (case truthyString (opt os sound) of Some t \<Rightarrow> t | None \<Rightarrow> ''default''),
      apns_badge = (case truthyNumber (opt os badge) of Some k \<Rightarrow> k | None \<Rightarrow> 1),
      apns_priority = (if opt os priority = Some High then ''10'' else ''5''),
      apns_expiration = (case truthyNumber (opt os ttl) of Some k \<Rightarrow> k | None \<Rightarrow> 0)\<rparr>"

text \<open>
  What a call of the service leaves behind: the value it returns or the error it
  throws, the messages handed to the push client, and the lines written to the console.
\<close>

record 'a outcome =
  returned :: "error + 'a"
  pushed :: "multicastMessage list"
  console :: "string list"

text \<open>
  \<^verbatim>\<open>sendMulticastNotification\<close>. \<open>send\<close> is
  \<^verbatim>\<open>admin.messaging().sendEachForMulticast\<close>, initialisation included: it returns the
  per-token result or throws.
\<close>

definition sendMulticastNotification ::
  "(multicastMessage \<Rightarrow> error + 'r) \<Rightarrow> string list \<Rightarrow> string \<Rightarrow> string
     \<Rightarrow> (string \<times> string) list option \<Rightarrow> options option \<Rightarrow> 'r outcome" where
  "sendMulticastNotification send ts ti bo da os =
     (let message = multicast ts ti bo da os in
      case send message of
        Inr r \<Rightarrow> \<lparr>returned = Inr r, pushed = [message], console = []\<rparr>
      | Inl e \<Rightarrow>
          \<lparr>returned = Inl (CustomError ''Failed to send notifications'' 500),
           pushed = [message],
           console = [''Error sending multicast notification:'']\<rparr>)"

text \<open>
  \<^verbatim>\<open>sendNotificationToUser\<close>: the body of its \<^verbatim>\<open>try\<close> block, then the function with
  its \<^verbatim>\<open>catch\<close>, which logs and returns \<^verbatim>\<open>null\<close>. \<open>None\<close> is \<^verbatim>\<open>null\<close>.
\<close>

definition sendNotificationToUser_try ::
  "(multicastMessage \<Rightarrow> error + 'r) \<Rightarrow> clock \<Rightarrow> notificationPreferences list \<Rightarrow> deviceToken list
     \<Rightarrow> string \<Rightarrow> string \<Rightarrow> string \<Rightarrow> preferenceType \<Rightarrow> (string \<times> string) list option
     \<Rightarrow> options option \<Rightarrow> 'r option outcome" where
  "sendNotificationToUser_try send clk prefs dts uid ti bo ty da os =
     (case findOne (\<lambda>p. np_userId p = uid) prefs of
        None \<Rightarrow>
          \<lparr>returned = Inr None, pushed = [],
           console = [''No notification preferences found for user '' @ uid]\<rparr>
      | Some i \<Rightarrow>
          (let preferences = prefs ! i in
           if \<not> switch preferences ty then
             \<lparr>returned = Inr None, pushed = [],
              console = [''User '' @ uid @ '' has disabled '' @ typeName ty @ '' notifications'']\<rparr>
           else if enabled (quietHours preferences)
                   \<and> isWithinQuietHours clk (quietHours preferences) then
             \<lparr>returned = Inr None, pushed = [],
              console = [''User '' @ uid @ '' is in quiet hours'']\<rparr>
           else
             (let deviceTokens = filter (\<lambda>dt. dt_userId dt = uid \<and> isActive dt) dts in
              if length deviceTokens = 0 then \<lparr>returned = Inr None, pushed = [], console = []\<rparr>
              else
                (let r = sendMulticastNotification send (map token deviceTokens) ti bo da os
                 in \<lparr>returned = map_sum id Some (returned r), pushed = pushed r,
                     console = console r\<rparr>))))"

definition sendNotificationToUser ::
  "(multicastMessage \<Rightarrow> error + 'r) \<Rightarrow> clock \<Rightarrow> notificationPreferences list \<Rightarrow> deviceToken list
     \<Rightarrow> string \<Rightarrow> string \<Rightarrow> string \<Rightarrow> preferenceType \<Rightarrow> (string \<times> string) list option
     \<Rightarrow> options option \<Rightarrow> 'r option outcome" where
  "sendNotificationToUser send clk prefs dts uid ti bo ty da os =
     (let r = sendNotificationToUser_try send clk prefs dts uid ti bo ty da os in
      case returned r of
        Inr v \<Rightarrow> r
      | Inl e \<Rightarrow>
          r\<lparr>returned := Inr None,
            console := console r @ [''Error sending notification to user:'']\<rparr>)"


section \<open>Notions used to state the properties\<close>

text \<open>
  The notification types whose handler calls the billing client, and those whose
  handler saves without calling it.
\<close>

definition reverifying :: "string \<Rightarrow> bool" where
  "reverifying t =
     (t \<in> set [''SUBSCRIPTION_PURCHASED'', ''SUBSCRIPTION_RENEWED'', ''SUBSCRIPTION_RECOVERED'',
                ''SUBSCRIPTION_RESTARTED'', ''SUBSCRIPTION_PRORATED'', ''SUBSCRIPTION_DEFERRED''])"

definition saving :: "string \<Rightarrow> bool" where
  "saving t =
     (t \<in> set [''SUBSCRIPTION_EXPIRED'', ''SUBSCRIPTION_CANCELED'', ''SUBSCRIPTION_PAUSED''])"

text \<open>
  When something is thrown inside the \<^verbatim>\<open>try\<close> block of the webhook: the envelope
  does not decode; or a record with the \<^verbatim>\<open>subscriptionId\<close> exists and either the
  billing client throws in a re-verifying handler, or a handler reaches \<^verbatim>\<open>save()\<close>
  (at once, or after a valid verification) and the record fails the validators.
\<close>

definition webhookThrows :: "googlePlayService \<Rightarrow> webhookRequest \<Rightarrow> world \<Rightarrow> bool" where
  "webhookThrows gp req w =
     (case req of
        Undecodable \<Rightarrow> True
      | Envelope d \<Rightarrow>
          (case findOne (\<lambda>s. subscriptionId s = n_subscriptionId d) (subscriptions w) of
             None \<Rightarrow> False
           | Some i \<Rightarrow>
               if reverifying (notificationType d) then
                 (case verifySubscription gp (n_packageName d) (n_subscriptionId d)
                         (n_purchaseToken d) of
                    Inl e \<Rightarrow> True
                  | Inr vr \<Rightarrow> isValid vr \<and> \<not> passesValidators (subscriptions w ! i))
               else saving (notificationType d) \<and> \<not> passesValidators (subscriptions w ! i)))"

text \<open>The records of a user's subscription to one product, and a user's active records.\<close>

definition keyed :: "string \<Rightarrow> string \<Rightarrow> subscription list \<Rightarrow> subscription list" where
  "keyed uid sid ds = filter (\<lambda>s. userId s = uid \<and> subscriptionId s = sid) ds"


text \<open>
  When the collection rejects the upsert of a verification: the user's record for the
  product exists, the purchase token is new to it and another record holds that token;
  or there is no such record and another record holds the token or lacks an
  \<^verbatim>\<open>orderId\<close>, as the inserted one does.
\<close>

definition upsertRejected :: "string \<Rightarrow> string \<Rightarrow> string \<Rightarrow> subscription list \<Rightarrow> bool" where
  "upsertRejected uid sid tok ds =
     (case findOne (\<lambda>s. userId s = uid \<and> subscriptionId s = sid) ds of
        Some i \<Rightarrow> purchaseToken (ds ! i) \<noteq> tok \<and> list_ex (\<lambda>d. purchaseToken d = tok) (others i ds)
      | None \<Rightarrow> list_ex (\<lambda>d. purchaseToken d = tok \<or> orderId d = None) ds)"

text \<open>The collection after an upsert that it accepts, made at time \<open>t\<close>.\<close>

definition upserted ::
  "string \<Rightarrow> string \<Rightarrow> string \<Rightarrow> verificationResult \<Rightarrow> int \<Rightarrow> subscription list
     \<Rightarrow> subscription list" where
  "upserted uid sid tok vr t ds =
     (case findOne (\<lambda>s. userId s = uid \<and> subscriptionId s = sid) ds of
        Some i \<Rightarrow> ds[i := verifiedUpdate uid sid tok vr t (ds ! i)]
      | None \<Rightarrow> ds @ [verifiedInsert uid sid tok vr t])"

text \<open>
  The gates of the dispatch, in the order in which the algorithm consults them, and
  the gate that stops a call, if any.
\<close>

datatype gate = NoPreferences | PreferenceDisabled | InQuietHours | NoActiveTokens

definition suppressedBy ::
  "clock \<Rightarrow> notificationPreferences list \<Rightarrow> deviceToken list \<Rightarrow> string \<Rightarrow> preferenceType
     \<Rightarrow> gate option" where
  "suppressedBy clk prefs dts uid ty =
     (case findOne (\<lambda>p. np_userId p = uid) prefs of
        None \<Rightarrow> Some NoPreferences
      | Some i \<Rightarrow>
          if \<not> switch (prefs ! i) ty then Some PreferenceDisabled
          else if isWithinQuietHours clk (quietHours (prefs ! i)) then Some InQuietHours
          else if filter (\<lambda>dt. dt_userId dt = uid \<and> isActive dt) dts = [] then Some NoActiveTokens
          else None)"

text \<open>What the console shows for each gate.\<close>

fun gateLog :: "gate \<Rightarrow> string \<Rightarrow> preferenceType \<Rightarrow> string list" where
  "gateLog NoPreferences uid ty = [''No notification preferences found for user '' @ uid]"
| "gateLog PreferenceDisabled uid ty =
     [''User '' @ uid @ '' has disabled '' @ typeName ty @ '' notifications'']"
| "gateLog InQuietHours uid ty = [''User '' @ uid @ '' is in quiet hours'']"
| "gateLog NoActiveTokens uid ty = []"

text \<open>
  The fields of a record that no webhook handler assigns and that tell the records
  apart.
\<close>

definition identityOf :: "subscription \<Rightarrow> string \<times> string \<times> string \<times> string option" where
  "identityOf s = (userId s, subscriptionId s, purchaseToken s, orderId s)"

text \<open>The record that a successful verification at time \<open>t\<close> leaves behind.\<close>

definition verified ::
  "string \<Rightarrow> string \<Rightarrow> string \<Rightarrow> verificationResult \<Rightarrow> int \<Rightarrow> subscription \<Rightarrow> bool" where
  "verified uid sid tok vr t s =
     (userId s = uid \<and> subscriptionId s = sid \<and> productId s = sid \<and> purchaseToken s = tok
      \<and> tier s = vr_tier vr \<and> status s = Active \<and> startDate s = t
      \<and> expiryDate s = vr_expiryDate vr \<and> autoRenewing s \<and> updatedAt s = t)"

text \<open>The minute of the day that an \<^verbatim>\<open>HH:mm\<close> string names.\<close>

definition minuteOfDay :: "string \<Rightarrow> int" where
  "minuteOfDay s = (case hourMinute s of (Some h, Some m) \<Rightarrow> h * 60 + m | _ \<Rightarrow> 0)"

text \<open>The tokens of a user's active devices, as the dispatch collects them.\<close>

definition activeTokens :: "string \<Rightarrow> deviceToken list \<Rightarrow> string list" where
  "activeTokens uid dts = map token (filter (\<lambda>dt. dt_userId dt = uid \<and> isActive dt) dts)"

section \<open>Sample inputs\<close>

text \<open>
  A record with every required field, as a back office would provision it; no
  controller of the repository writes \<^verbatim>\<open>paymentState\<close>, the price fields or
  \<^verbatim>\<open>orderId\<close>.
\<close>

definition sampleSubscription :: subscription where
  "sampleSubscription =
     \<lparr>userId = ''u1'', subscriptionId = ''com.yourapp.subscription.basic'',
      productId = ''com.yourapp.subscription.basic'', purchaseToken = ''tok-1'',
      tier = Basic, status = Active, startDate = 1000, expiryDate = 5000,
      autoRenewing = True, paymentState = Some 1, priceAmount = Some 499,
      priceCurrency = Some ''USD'', countryCode = Some ''US'', developerPayload = None,
      orderId = Some ''GPA.1'', purchaseType = SubscriptionPurchase,
      gracePeriodEndDate = None, trialEndDate = None, createdAt = 1000, updatedAt = 1000\<rparr>"


definition sampleWorld :: world where
  "sampleWorld = \<lparr>subscriptions = [sampleSubscription], billingCalls = []\<rparr>"

definition emptyWorld :: world where
  "emptyWorld = \<lparr>subscriptions = [], billingCalls = []\<rparr>"


definition sampleEvent :: "string \<Rightarrow> notification" where
  "sampleEvent t =
     \<lparr>notificationType = t, n_subscriptionId = ''com.yourapp.subscription.basic'',
      n_purchaseToken = ''tok-1'', n_packageName = ''com.yourapp''\<rparr>"

definition sampleBody :: verifyBody where
  "sampleBody =
     \<lparr>vb_packageName = ''com.yourapp'', vb_subscriptionId = ''com.yourapp.subscription.basic'',
      vb_purchaseToken = ''tok-1''\<rparr>"

definition premiumBody :: verifyBody where
  "premiumBody =
     \<lparr>vb_packageName = ''com.yourapp'', vb_subscriptionId = ''com.yourapp.subscription.premium'',
      vb_purchaseToken = ''tok-2''\<rparr>"

definition verifyThrows :: "string \<Rightarrow> string \<Rightarrow> string \<Rightarrow> error + verificationResult" where
  "verifyThrows pkg sid tok = Inl (CustomError ''Error verifying subscription'' 500)"

definition verifyValid :: "string \<Rightarrow> string \<Rightarrow> string \<Rightarrow> error + verificationResult" where
  "verifyValid pkg sid tok = Inr \<lparr>isValid = True, vr_tier = Basic, vr_expiryDate = 9000\<rparr>"

definition verifyInvalid :: "string \<Rightarrow> string \<Rightarrow> string \<Rightarrow> error + verificationResult" where
  "verifyInvalid pkg sid tok = Inr \<lparr>isValid = False, vr_tier = Basic, vr_expiryDate = 0\<rparr>"

definition acknowledged :: "string \<Rightarrow> string \<Rightarrow> string \<Rightarrow> error + unit" where
  "acknowledged pkg sid tok = Inr ()"

definition throwingService :: googlePlayService where
  "throwingService = \<lparr>verifySubscription = verifyThrows, acknowledgeSubscription = acknowledged\<rparr>"

definition validService :: googlePlayService where
  "validService = \<lparr>verifySubscription = verifyValid, acknowledgeSubscription = acknowledged\<rparr>"

definition invalidService :: googlePlayService where
  "invalidService = \<lparr>verifySubscription = verifyInvalid, acknowledgeSubscription = acknowledged\<rparr>"

text \<open>
  The states that the repository's own code produces from an empty collection: user
  \<^verbatim>\<open>u1\<close> has verified the basic product at time 7000; user \<^verbatim>\<open>u2\<close> has verified the premium
  product at time 6000.
\<close>

definition verifiedWorld :: world where
  "verifiedWorld =
     snd (verifyAndSaveSubscription validService 7000 (Some ''u1'') sampleBody emptyWorld)"

definition otherUserWorld :: world where
  "otherUserWorld =
     snd (verifyAndSaveSubscription validService 6000 (Some ''u2'') premiumBody emptyWorld)"

definition nightlyQuiet :: QuietHours where
  "nightlyQuiet = \<lparr>enabled = True, startTime = ''22:00'', endTime = ''08:00'', timezone = ''UTC''\<rparr>"

definition samplePreferences :: notificationPreferences where
  "samplePreferences =
     \<lparr>np_userId = ''u1'', newWallpapers = True, trendingWallpapers = True,
      subscriptionUpdates = True, systemUpdates = True, marketingUpdates = False,
      quietHours = nightlyQuiet\<rparr>"

definition sampleToken :: deviceToken where
  "sampleToken =
     \<lparr>dt_userId = ''u1'', token = ''fcm-1'', deviceType = Android, deviceId = ''d1'',
      isActive = True, lastUsed = 0\<rparr>"

definition utcZone :: "int \<Rightarrow> string \<Rightarrow> int" where
  "utcZone t z = t"

definition clockAt :: "int \<Rightarrow> clock" where
  "clockAt t = \<lparr>now = t, toZonedTime = utcZone\<rparr>"

definition delivers :: "multicastMessage \<Rightarrow> error + nat" where
  "delivers m = Inr (length (tokens m))"

section \<open>Auxiliary facts\<close>

subsection \<open>Collections\<close>

lemma findOne_Some_lt: "findOne p xs = Some i \<Longrightarrow> i < length xs"
  by (induction xs arbitrary: i) (auto split: if_splits option.splits)

lemma findOne_Some_sat: "findOne p xs = Some i \<Longrightarrow> p (xs ! i)"
  by (induction xs arbitrary: i) (auto split: if_splits option.splits)

lemma findOne_update_sat: "findOne p xs = Some i \<Longrightarrow> p y \<Longrightarrow> findOne p (xs[i := y]) = Some i"
  by (induction xs arbitrary: i) (auto split: if_splits option.splits)

lemma findOne_append_new:
  "findOne p xs = None \<Longrightarrow> p y \<Longrightarrow> findOne p (xs @ [y]) = Some (length xs)"
  by (induction xs) (auto split: if_splits option.splits)

lemma filter_empty_findOne: "filter p xs = [] \<longleftrightarrow> findOne p xs = None"
  by (induction xs) (auto split: option.splits)

lemma filter_update_same:
  "i < length xs \<Longrightarrow> p (xs ! i) = p y \<Longrightarrow> length (filter p (xs[i := y])) = length (filter p xs)"
  by (induction xs arbitrary: i) (auto split: nat.splits)


lemma map_identityOf_update:
  "identityOf y = identityOf (xs ! i) \<Longrightarrow> map identityOf (xs[i := y]) = map identityOf xs"
  by (induction xs arbitrary: i) (auto split: nat.splits)

lemma others_update: "others i (xs[i := y]) = others i xs"
  by (simp add: others_def)

subsection \<open>Saving\<close>

lemma passesValidators_assigned:
  "passesValidators (s\<lparr>status := a\<rparr>) = passesValidators s"
  "passesValidators (s\<lparr>expiryDate := e\<rparr>) = passesValidators s"
  "passesValidators (s\<lparr>autoRenewing := b\<rparr>) = passesValidators s"
  by (simp_all add: passesValidators_def)

lemma stamp_fields:
  "userId (stamp t old new) = userId new"
  "subscriptionId (stamp t old new) = subscriptionId new"
  "purchaseToken (stamp t old new) = purchaseToken new"
  "orderId (stamp t old new) = orderId new"
  "status (stamp t old new) = status new"
  by (simp_all add: stamp_def)

lemma save_cases:
  "save t old new =
     (if passesValidators new then Inr (stamp t old new) else Inl (OtherError ''ValidationError''))"
  by (simp add: save_def)

subsection \<open>The webhook handlers\<close>

lemmas handler_defs =
  handleSubscriptionRenewal_def handleSubscriptionExpiry_def handleSubscriptionRecovery_def
  handleSubscriptionPause_def handleSubscriptionRestart_def handleSubscriptionProration_def
  handleSubscriptionDeferral_def

lemma dispatch_throws: "isl (fst (dispatch gp t d w)) \<longleftrightarrow> webhookThrows gp (Envelope d) w"
  by (auto simp: dispatch_def webhookThrows_def reverifying_def saving_def handler_defs Let_def
           save_def passesValidators_assigned split: option.splits sum.splits)

lemma dispatch_identities:
  "map identityOf (subscriptions (snd (dispatch gp t d w))) = map identityOf (subscriptions w)"
  by (auto simp: dispatch_def handler_defs Let_def save_def map_identityOf_update
           stamp_fields identityOf_def split: option.splits sum.splits)

subsection \<open>The sample states\<close>

lemma verifiedWorld_eq:
  "verifiedWorld =
     \<lparr>subscriptions =
        [verifiedInsert ''u1'' ''com.yourapp.subscription.basic'' ''tok-1''
           \<lparr>isValid = True, vr_tier = Basic, vr_expiryDate = 9000\<rparr> 7000],
      billingCalls =
        [VerifyCall ''com.yourapp'' ''com.yourapp.subscription.basic'' ''tok-1'',
         AcknowledgeCall ''com.yourapp'' ''com.yourapp.subscription.basic'' ''tok-1'']\<rparr>"
  by (simp add: verifiedWorld_def verifyAndSaveSubscription_def verifyAndSaveSubscription_try_def
        Let_def validService_def verifyValid_def acknowledged_def sampleBody_def emptyWorld_def
        findOneAndUpdate_def duplicateKey_def)

lemma otherUserWorld_eq:
  "otherUserWorld =
     \<lparr>subscriptions =
        [verifiedInsert ''u2'' ''com.yourapp.subscription.premium'' ''tok-2''
           \<lparr>isValid = True, vr_tier = Basic, vr_expiryDate = 9000\<rparr> 6000],
      billingCalls =
        [VerifyCall ''com.yourapp'' ''com.yourapp.subscription.premium'' ''tok-2'',
         AcknowledgeCall ''com.yourapp'' ''com.yourapp.subscription.premium'' ''tok-2'']\<rparr>"
  by (simp add: otherUserWorld_def verifyAndSaveSubscription_def verifyAndSaveSubscription_try_def
        Let_def validService_def verifyValid_def acknowledged_def premiumBody_def emptyWorld_def
        findOneAndUpdate_def duplicateKey_def)


lemma sampleSubscription_valid: "passesValidators sampleSubscription"
  by (simp add: passesValidators_def sampleSubscription_def)

subsection \<open>Verification and cancellation\<close>

lemma list_ex_disj: "list_ex (\<lambda>d. P d \<or> Q d) ds \<longleftrightarrow> list_ex P ds \<or> list_ex Q ds"
  by (induction ds) auto

lemma upsert_outcome:
  "findOneAndUpdate (\<lambda>s. userId s = uid \<and> subscriptionId s = sid)
     (verifiedUpdate uid sid tok vr t) (verifiedInsert uid sid tok vr t) ds =
   (if upsertRejected uid sid tok ds then Inl (OtherError ''E11000 duplicate key error'')
    else Inr (case findOne (\<lambda>s. userId s = uid \<and> subscriptionId s = sid) ds of
                Some i \<Rightarrow> verifiedUpdate uid sid tok vr t (ds ! i)
              | None \<Rightarrow> verifiedInsert uid sid tok vr t,
              upserted uid sid tok vr t ds))"
  by (auto simp: findOneAndUpdate_def upsertRejected_def upserted_def duplicateKey_def
        verifiedUpdate_def verifiedInsert_def Let_def list_ex_disj split: option.splits)

lemma verify_accepted:
  assumes "verifySubscription gp (vb_packageName rq) (vb_subscriptionId rq) (vb_purchaseToken rq)
             = Inr vr"
    and "isValid vr"
    and "\<not> upsertRejected uid (vb_subscriptionId rq) (vb_purchaseToken rq) (subscriptions w)"
  shows "subscriptions (snd (verifyAndSaveSubscription gp t (Some uid) rq w)) =
           upserted uid (vb_subscriptionId rq) (vb_purchaseToken rq) vr t (subscriptions w)"
  using assms
  by (simp add: verifyAndSaveSubscription_def verifyAndSaveSubscription_try_def Let_def
        upsert_outcome split: prod.splits sum.splits)

lemma verify_rejected:
  assumes "verifySubscription gp (vb_packageName rq) (vb_subscriptionId rq) (vb_purchaseToken rq)
             = Inr vr"
    and "isValid vr"
    and "upsertRejected uid (vb_subscriptionId rq) (vb_purchaseToken rq) (subscriptions w)"
  shows "fst (verifyAndSaveSubscription gp t (Some uid) rq w)
           = Inl (CustomError ''Error processing subscription'' 500)"
    and "subscriptions (snd (verifyAndSaveSubscription gp t (Some uid) rq w)) = subscriptions w"
  using assms
  by (simp_all add: verifyAndSaveSubscription_def verifyAndSaveSubscription_try_def Let_def
        upsert_outcome)

lemma upsert_result:
  fixes uid sid tok vr t ds
  defines "p \<equiv> (\<lambda>s. userId s = uid \<and> subscriptionId s = sid)"
  defines "ds' \<equiv> upserted uid sid tok vr t ds"
  shows "\<exists>i. findOne p ds' = Some i \<and> i < length ds' \<and> verified uid sid tok vr t (ds' ! i)
           \<and> length (filter p ds') = max 1 (length (filter p ds))"
proof (cases "findOne p ds")
  case None
  then have e: "filter p ds = []" by (simp only: filter_empty_findOne)
  have pi: "p (verifiedInsert uid sid tok vr t)" by (simp add: p_def verifiedInsert_def)
  have ds': "ds' = ds @ [verifiedInsert uid sid tok vr t]"
    using None by (simp add: ds'_def upserted_def p_def)
  have "findOne p ds' = Some (length ds)"
    unfolding ds' using None pi by (rule findOne_append_new)
  moreover have "verified uid sid tok vr t (ds' ! length ds)"
    by (simp add: ds' verified_def verifiedInsert_def)
  moreover have "length (filter p ds') = max 1 (length (filter p ds))"
    using e pi by (simp add: ds')
  ultimately show ?thesis by (auto simp: ds')
next
  case (Some i)
  have lt: "i < length ds" using Some by (rule findOne_Some_lt)
  have sat: "p (ds ! i)" using Some by (rule findOne_Some_sat)
  have pu: "p (verifiedUpdate uid sid tok vr t (ds ! i))" by (simp add: p_def verifiedUpdate_def)
  have ds': "ds' = ds[i := verifiedUpdate uid sid tok vr t (ds ! i)]"
    using Some by (simp add: ds'_def upserted_def p_def)
  have "findOne p ds' = Some i" unfolding ds' using Some pu by (rule findOne_update_sat)
  moreover have "verified uid sid tok vr t (ds' ! i)"
    using lt by (simp add: ds' verified_def verifiedUpdate_def)
  moreover have "length (filter p ds') = length (filter p ds)"
    unfolding ds' using lt sat pu by (intro filter_update_same) simp_all
  moreover have "filter p ds \<noteq> []" using Some by (simp add: filter_empty_findOne)
  then have "max 1 (length (filter p ds)) = length (filter p ds)"
    by (cases "filter p ds") simp_all
  ultimately show ?thesis using lt by (auto simp: ds')
qed

lemma reverified:
  "verified uid sid tok vr t s
     \<Longrightarrow> verifiedUpdate uid sid tok vr t' s = s\<lparr>startDate := t', updatedAt := t'\<rparr>"
  by (simp add: verified_def verifiedUpdate_def)

lemma same_token_accepted:
  "findOne (\<lambda>s. userId s = uid \<and> subscriptionId s = sid) ds = Some i
     \<Longrightarrow> purchaseToken (ds ! i) = tok \<Longrightarrow> \<not> upsertRejected uid sid tok ds"
  by (simp add: upsertRejected_def)




subsection \<open>Quiet hours and dispatch\<close>

lemma isDigit_not_colon: "isDigit c \<Longrightarrow> c \<noteq> CHR '':''"
  by (auto simp: isDigit_def)

lemma sub_digit:
  "c \<in> set ''012345'' \<Longrightarrow> isDigit c" "c \<in> set ''01'' \<Longrightarrow> isDigit c"
  "c \<in> set ''0123'' \<Longrightarrow> isDigit c" "isDigit (CHR ''2'')"
  by (auto simp: isDigit_def)

lemma timeRegex_parse:
  assumes "timeRegex s"
  shows "\<exists>h m. hourMinute s = (Some h, Some m)"
  using assms
proof (cases s rule: timeRegex.cases)
  case (1 h c m1 m2)
  with assms show ?thesis
    by (auto simp: hourMinute_def Number_def isDigit_not_colon sub_digit)
next
  case (2 h1 h2 c m1 m2)
  with assms show ?thesis
    by (auto simp: hourMinute_def Number_def isDigit_not_colon sub_digit)
qed simp_all

lemma nightly_parse:
  "hourMinute ''22:00'' = (Some 22, Some 0)" "hourMinute ''08:00'' = (Some 8, Some 0)"
  by (simp_all add: hourMinute_def Number_def isDigit_def digitValue_def)

lemma nightly_quiet:
  assumes "toZonedTime clk (now clk) ''UTC'' = t"
  shows "isWithinQuietHours clk
           \<lparr>enabled = True, startTime = ''22:00'', endTime = ''08:00'', timezone = ''UTC''\<rparr>
         \<longleftrightarrow> 79200000 \<le> t mod msPerDay"
proof -
  have "t mod 86400000 < 86400000" by simp
  then have "t mod 86400000 \<le> 115200000" by linarith
  then show ?thesis
    using assms
    by (simp add: isWithinQuietHours_def nightly_parse setHours_def msPerDay_def Let_def)
qed

lemma not_quiet_before_start:
  assumes "hourMinute (startTime q) = (Some sh, Some sm)"
    and "hourMinute (endTime q) = (Some eh, Some em)"
    and "eh * 60 + em < sh * 60 + sm"
    and "toZonedTime clk (now clk) (timezone q) mod msPerDay < (eh * 60 + em) * 60000"
  shows "\<not> isWithinQuietHours clk q"
  using assms
  by (auto simp: isWithinQuietHours_def setHours_def Let_def msPerDay_def)

lemma quiet_enabled: "isWithinQuietHours clk q \<Longrightarrow> enabled q"
  by (auto simp: isWithinQuietHours_def split: if_splits)

lemma send_suppressed:
  assumes "suppressedBy clk prefs dts uid ty = Some g"
  shows "sendNotificationToUser send clk prefs dts uid ti bo ty da os =
           \<lparr>returned = Inr None, pushed = [], console = gateLog g uid ty\<rparr>"
  using assms
  by (auto simp: suppressedBy_def sendNotificationToUser_def sendNotificationToUser_try_def
        Let_def split: option.splits if_splits dest: quiet_enabled)

lemma send_passed:
  assumes "suppressedBy clk prefs dts uid ty = None"
  shows "sendNotificationToUser send clk prefs dts uid ti bo ty da os =
           (case send (multicast (activeTokens uid dts) ti bo da os) of
              Inr r \<Rightarrow> \<lparr>returned = Inr (Some r),
                        pushed = [multicast (activeTokens uid dts) ti bo da os], console = []\<rparr>
            | Inl e \<Rightarrow> \<lparr>returned = Inr None,
                        pushed = [multicast (activeTokens uid dts) ti bo da os],
                        console = [''Error sending multicast notification:'',
                                   ''Error sending notification to user:'']\<rparr>)"
proof -
  from assms obtain i where i: "findOne (\<lambda>p. np_userId p = uid) prefs = Some i"
    and sw: "switch (prefs ! i) ty"
    and q: "\<not> isWithinQuietHours clk (quietHours (prefs ! i))"
    and tk: "filter (\<lambda>dt. dt_userId dt = uid \<and> isActive dt) dts \<noteq> []"
    by (auto simp: suppressedBy_def split: option.splits if_splits)
  show ?thesis
    using i sw q tk
    by (simp add: sendNotificationToUser_def sendNotificationToUser_try_def
        sendMulticastNotification_def activeTokens_def Let_def split: sum.splits)
qed


section \<open>The webhook\<close>

text \<open>
  C1 (as the code has it). The webhook answers 200 unless something is thrown inside its
  \<^verbatim>\<open>try\<close> block, and 500 otherwise. Something is thrown when the envelope does not
  decode; when a record with the \<^verbatim>\<open>subscriptionId\<close> exists, the event has one of the six
  re-verifying types and the billing verification call throws; and when a handler reaches
  \<^verbatim>\<open>save()\<close> on a record that fails the schema's validators, as every record does that
  \<^verbatim>\<open>verifyAndSaveSubscription\<close> has created. A successful decoding alone does not give
  200.
\<close>

theorem webhook_answer:
  "fst (handleSubscriptionWebhook gp t req w) =
     (if webhookThrows gp req w
      then \<lparr>statusCode = 500, sent = ''Error processing webhook''\<rparr>
      else \<lparr>statusCode = 200, sent = ''OK''\<rparr>)"
proof (cases req)
  case Undecodable
  then show ?thesis by (simp add: handleSubscriptionWebhook_def webhookThrows_def)
next
  case (Envelope d)
  obtain r w' where rw: "dispatch gp t d w = (r, w')" by (cases "dispatch gp t d w")
  with dispatch_throws [of gp t d w] have "isl r \<longleftrightarrow> webhookThrows gp (Envelope d) w" by simp
  with Envelope rw show ?thesis
    by (cases r) (simp_all add: handleSubscriptionWebhook_def)
qed

text \<open>
  An undecodable request is answered 500; a \<^verbatim>\<open>SUBSCRIPTION_PAUSED\<close> event for a record
  with every required field is answered 200 even with a billing client that would throw,
  since the pause handler never calls it; a \<^verbatim>\<open>SUBSCRIPTION_RENEWED\<close> event with a valid
  verification, for the record that a verify call created, is answered 500.
\<close>

theorem webhook_answer_witness:
  "fst (handleSubscriptionWebhook throwingService 8000 Undecodable sampleWorld)
     = \<lparr>statusCode = 500, sent = ''Error processing webhook''\<rparr>
   \<and> fst (handleSubscriptionWebhook throwingService 8000
            (Envelope (sampleEvent ''SUBSCRIPTION_PAUSED'')) sampleWorld)
     = \<lparr>statusCode = 200, sent = ''OK''\<rparr>
   \<and> fst (handleSubscriptionWebhook validService 8000
            (Envelope (sampleEvent ''SUBSCRIPTION_RENEWED'')) verifiedWorld)
     = \<lparr>statusCode = 500, sent = ''Error processing webhook''\<rparr>"
proof -
  have a: "webhookThrows throwingService Undecodable sampleWorld"
    by (simp add: webhookThrows_def)
  have b: "\<not> webhookThrows throwingService (Envelope (sampleEvent ''SUBSCRIPTION_PAUSED'')) sampleWorld"
    by (simp add: webhookThrows_def reverifying_def saving_def sampleEvent_def sampleWorld_def
          sampleSubscription_valid split: option.splits)
  have c: "webhookThrows validService (Envelope (sampleEvent ''SUBSCRIPTION_RENEWED'')) verifiedWorld"
    by (simp add: webhookThrows_def reverifying_def sampleEvent_def verifiedWorld_eq
          passesValidators_def validService_def verifyValid_def verifiedInsert_def)
  from webhook_answer [of throwingService 8000 Undecodable sampleWorld] a
  have 1: "fst (handleSubscriptionWebhook throwingService 8000 Undecodable sampleWorld)
             = \<lparr>statusCode = 500, sent = ''Error processing webhook''\<rparr>"
    by simp
  from webhook_answer [of throwingService 8000 "Envelope (sampleEvent ''SUBSCRIPTION_PAUSED'')" sampleWorld] b
  have 2: "fst (handleSubscriptionWebhook throwingService 8000
                 (Envelope (sampleEvent ''SUBSCRIPTION_PAUSED'')) sampleWorld)
             = \<lparr>statusCode = 200, sent = ''OK''\<rparr>"
    by simp
  from webhook_answer [of validService 8000 "Envelope (sampleEvent ''SUBSCRIPTION_RENEWED'')" verifiedWorld] c
  have 3: "fst (handleSubscriptionWebhook validService 8000
            (Envelope (sampleEvent ''SUBSCRIPTION_RENEWED'')) verifiedWorld)
     = \<lparr>statusCode = 500, sent = ''Error processing webhook''\<rparr>"
    by simp
  from 1 2 3 show ?thesis by blast
qed

text \<open>
  Against C1 as stated: two events that decode are answered 500, a
  \<^verbatim>\<open>SUBSCRIPTION_RENEWED\<close> event whose billing call throws, and a
  \<^verbatim>\<open>SUBSCRIPTION_PAUSED\<close> event for the record that a verify call created.
\<close>

theorem webhook_answer_counterexample:
  "statusCode (fst (handleSubscriptionWebhook throwingService 8000
       (Envelope (sampleEvent ''SUBSCRIPTION_RENEWED'')) sampleWorld)) = 500
   \<and> statusCode (fst (handleSubscriptionWebhook validService 8000
       (Envelope (sampleEvent ''SUBSCRIPTION_PAUSED'')) verifiedWorld)) = 500"
  by (simp add: handleSubscriptionWebhook_def dispatch_def handleSubscriptionRenewal_def
        handleSubscriptionPause_def save_def passesValidators_def verifiedWorld_eq
        verifiedInsert_def throwingService_def sampleEvent_def sampleWorld_def
        sampleSubscription_def verifyThrows_def Let_def)




text \<open>
  C5. An event whose \<^verbatim>\<open>subscriptionId\<close> matches no record is answered 200 and leaves
  the collection and the trace of billing calls as they were, whatever its type. And no
  webhook request creates a record: the identities of the records, in order, are the
  same before and after.
\<close>

theorem unknown_subscription_noop:
  "(findOne (\<lambda>s. subscriptionId s = n_subscriptionId d) (subscriptions w) = None \<longrightarrow>
      handleSubscriptionWebhook gp t (Envelope d) w = (\<lparr>statusCode = 200, sent = ''OK''\<rparr>, w))
   \<and> map identityOf (subscriptions (snd (handleSubscriptionWebhook gp t req w)))
       = map identityOf (subscriptions w)"
proof
  show "findOne (\<lambda>s. subscriptionId s = n_subscriptionId d) (subscriptions w) = None \<longrightarrow>
      handleSubscriptionWebhook gp t (Envelope d) w = (\<lparr>statusCode = 200, sent = ''OK''\<rparr>, w)"
    by (auto simp: handleSubscriptionWebhook_def dispatch_def handler_defs Let_def)
  show "map identityOf (subscriptions (snd (handleSubscriptionWebhook gp t req w)))
       = map identityOf (subscriptions w)"
  proof (cases req)
    case Undecodable
    then show ?thesis by (simp add: handleSubscriptionWebhook_def)
  next
    case (Envelope e)
    with dispatch_identities [of gp t e w] show ?thesis
      by (cases "dispatch gp t e w") (auto simp: handleSubscriptionWebhook_def split: sum.splits)
  qed
qed

theorem unknown_subscription_noop_witness:
  "handleSubscriptionWebhook throwingService 8000
       (Envelope (sampleEvent ''SUBSCRIPTION_RENEWED'')) emptyWorld
     = (\<lparr>statusCode = 200, sent = ''OK''\<rparr>, emptyWorld)"
  using unknown_subscription_noop
          [of "sampleEvent ''SUBSCRIPTION_RENEWED''" emptyWorld throwingService 8000 Undecodable]
  by (simp add: emptyWorld_def)




section \<open>Verification and cancellation\<close>

text \<open>
  C7. When the caller is authenticated and the billing client answers the verification
  with \<^verbatim>\<open>isValid = false\<close>, \<^verbatim>\<open>verifyAndSaveSubscription\<close> fails with
  \<^verbatim>\<open>CustomError('Invalid subscription', 400)\<close> and the Subscription collection is
  unchanged.
\<close>

theorem invalid_verification:
  assumes "verifySubscription gp (vb_packageName rq) (vb_subscriptionId rq) (vb_purchaseToken rq)
             = Inr vr"
    and "\<not> isValid vr"
  shows "fst (verifyAndSaveSubscription gp t (Some uid) rq w)
           = Inl (CustomError ''Invalid subscription'' 400)
       \<and> subscriptions (snd (verifyAndSaveSubscription gp t (Some uid) rq w)) = subscriptions w"
  using assms
  by (simp add: verifyAndSaveSubscription_def verifyAndSaveSubscription_try_def Let_def)

theorem invalid_verification_witness:
  "fst (verifyAndSaveSubscription invalidService 7000 (Some ''u1'') sampleBody sampleWorld)
     = Inl (CustomError ''Invalid subscription'' 400)
   \<and> subscriptions (snd (verifyAndSaveSubscription invalidService 7000 (Some ''u1'') sampleBody
        sampleWorld))
     = [sampleSubscription]"
  using invalid_verification [of invalidService sampleBody
      "\<lparr>isValid = False, vr_tier = Basic, vr_expiryDate = 0\<rparr>" 7000 "''u1''" sampleWorld]
  by (simp add: invalidService_def verifyInvalid_def sampleWorld_def)

text \<open>
  C3 (as the code has it). Let an authenticated user verify the same purchase twice, at
  the times \<open>t1\<close> and \<open>t2\<close>, the billing client answering both times with the same valid
  result. When the collection rejects the upsert for a duplicate index key, both calls
  fail with \<^verbatim>\<open>CustomError('Error processing subscription', 500)\<close> and the collection is
  unchanged. Otherwise the number of records keyed by the user and the
  \<^verbatim>\<open>subscriptionId\<close> is one if there was none or one before (in general the number
  before, and at least one); the first such record is active, auto-renewing, with the
  tier and the expiry date of the verification result, and its \<^verbatim>\<open>startDate\<close> is \<open>t2\<close>,
  the time of the last call: the second call overwrites \<^verbatim>\<open>startDate\<close> and
  \<^verbatim>\<open>updatedAt\<close> and changes nothing else. So the second call leaves the collection as
  the first left it when \<open>t2 = t1\<close>.
\<close>

theorem verify_twice:
  fixes gp t1 t2 uid rq w
  defines "w1 \<equiv> snd (verifyAndSaveSubscription gp t1 (Some uid) rq w)"
  defines "w2 \<equiv> snd (verifyAndSaveSubscription gp t2 (Some uid) rq w1)"
  assumes "verifySubscription gp (vb_packageName rq) (vb_subscriptionId rq) (vb_purchaseToken rq)
             = Inr vr"
    and "isValid vr"
  shows "if upsertRejected uid (vb_subscriptionId rq) (vb_purchaseToken rq) (subscriptions w)
         then fst (verifyAndSaveSubscription gp t1 (Some uid) rq w)
                = Inl (CustomError ''Error processing subscription'' 500)
              \<and> fst (verifyAndSaveSubscription gp t2 (Some uid) rq w1)
                = Inl (CustomError ''Error processing subscription'' 500)
              \<and> subscriptions w1 = subscriptions w \<and> subscriptions w2 = subscriptions w
         else length (keyed uid (vb_subscriptionId rq) (subscriptions w2))
                = max 1 (length (keyed uid (vb_subscriptionId rq) (subscriptions w)))
              \<and> (case findOne (\<lambda>s. userId s = uid \<and> subscriptionId s = vb_subscriptionId rq)
                        (subscriptions w2) of
                   None \<Rightarrow> False
                 | Some i \<Rightarrow>
                     verified uid (vb_subscriptionId rq) (vb_purchaseToken rq) vr t2
                       (subscriptions w2 ! i)
                     \<and> subscriptions w2 =
                         (subscriptions w1)
                           [i := (subscriptions w1 ! i)\<lparr>startDate := t2, updatedAt := t2\<rparr>])
              \<and> (t2 = t1 \<longrightarrow> subscriptions w2 = subscriptions w1)"
proof (cases "upsertRejected uid (vb_subscriptionId rq) (vb_purchaseToken rq) (subscriptions w)")
  case True
  note r1 = verify_rejected [OF assms(3,4) True, of t1]
  have s1: "subscriptions w1 = subscriptions w" unfolding w1_def by (rule r1(2))
  have True': "upsertRejected uid (vb_subscriptionId rq) (vb_purchaseToken rq) (subscriptions w1)"
    using True by (simp add: s1)
  note r2 = verify_rejected [OF assms(3,4) True', of t2]
  have s2: "subscriptions w2 = subscriptions w" unfolding w2_def using r2(2) s1 by simp
  show ?thesis using True r1(1) r2(1) s1 s2 by simp
next
  case False
  let ?sid = "vb_subscriptionId rq" and ?tok = "vb_purchaseToken rq"
  let ?p = "\<lambda>s. userId s = uid \<and> subscriptionId s = ?sid"
  have s1: "subscriptions w1 = upserted uid ?sid ?tok vr t1 (subscriptions w)"
    unfolding w1_def using assms(3,4) False by (rule verify_accepted)
  from upsert_result [of uid ?sid ?tok vr t1 "subscriptions w"] s1
  obtain i where i: "findOne ?p (subscriptions w1) = Some i" "i < length (subscriptions w1)"
      "verified uid ?sid ?tok vr t1 (subscriptions w1 ! i)"
      "length (filter ?p (subscriptions w1)) = max 1 (length (filter ?p (subscriptions w)))"
    by auto
  have tk: "purchaseToken (subscriptions w1 ! i) = ?tok" using i(3) by (simp add: verified_def)
  have acc: "\<not> upsertRejected uid ?sid ?tok (subscriptions w1)"
    using i(1) tk by (rule same_token_accepted)
  have s2: "subscriptions w2 = upserted uid ?sid ?tok vr t2 (subscriptions w1)"
    unfolding w2_def using assms(3,4) acc by (rule verify_accepted)
  have upd: "verifiedUpdate uid ?sid ?tok vr t2 (subscriptions w1 ! i)
               = (subscriptions w1 ! i)\<lparr>startDate := t2, updatedAt := t2\<rparr>"
    using i(3) by (rule reverified)
  have eq: "subscriptions w2 =
              (subscriptions w1)[i := (subscriptions w1 ! i)\<lparr>startDate := t2, updatedAt := t2\<rparr>]"
    using i(1) upd by (simp add: s2 upserted_def)
  have p2: "?p ((subscriptions w1 ! i)\<lparr>startDate := t2, updatedAt := t2\<rparr>)"
    using i(3) by (simp add: verified_def)
  have f2: "findOne ?p (subscriptions w2) = Some i"
    unfolding eq using i(1) p2 by (rule findOne_update_sat)
  have v2: "verified uid ?sid ?tok vr t2 (subscriptions w2 ! i)"
    using i(2,3) by (simp add: eq verified_def)
  have c2: "length (filter ?p (subscriptions w2)) = length (filter ?p (subscriptions w1))"
    unfolding eq using i(2) p2 findOne_Some_sat [OF i(1)] by (intro filter_update_same) simp_all
  have same: "t2 = t1 \<Longrightarrow> subscriptions w2 = subscriptions w1"
  proof -
    assume "t2 = t1"
    with i(3) have "(subscriptions w1 ! i)\<lparr>startDate := t2, updatedAt := t2\<rparr> = subscriptions w1 ! i"
      by (simp add: verified_def)
    then show ?thesis by (simp add: eq)
  qed
  show ?thesis
    using False f2 v2 eq c2 i(4) same by (simp add: keyed_def)
qed

theorem verify_twice_witness:
  "length (keyed ''u1'' ''com.yourapp.subscription.basic''
     (subscriptions (snd (verifyAndSaveSubscription validService 8000 (Some ''u1'') sampleBody
        (snd (verifyAndSaveSubscription validService 7000 (Some ''u1'') sampleBody emptyWorld))))))
     = 1
   \<and> subscriptions (snd (verifyAndSaveSubscription validService 7000 (Some ''u1'') sampleBody
        (snd (verifyAndSaveSubscription validService 7000 (Some ''u1'') sampleBody emptyWorld))))
     = subscriptions (snd (verifyAndSaveSubscription validService 7000 (Some ''u1'') sampleBody
        emptyWorld))
   \<and> subscriptions (snd (verifyAndSaveSubscription validService 8000 (Some ''u1'') sampleBody
        (snd (verifyAndSaveSubscription validService 7000 (Some ''u1'') sampleBody otherUserWorld))))
     = subscriptions otherUserWorld"
proof -
  have v: "verifySubscription validService (vb_packageName sampleBody)
             (vb_subscriptionId sampleBody) (vb_purchaseToken sampleBody)
           = Inr \<lparr>isValid = True, vr_tier = Basic, vr_expiryDate = 9000\<rparr>"
    by (simp add: validService_def verifyValid_def)
  have ok: "isValid \<lparr>isValid = True, vr_tier = Basic, vr_expiryDate = 9000\<rparr>" by simp
  have acc: "\<not> upsertRejected ''u1'' (vb_subscriptionId sampleBody) (vb_purchaseToken sampleBody)
               (subscriptions emptyWorld)"
    by (simp add: upsertRejected_def emptyWorld_def)
  have rej: "upsertRejected ''u1'' (vb_subscriptionId sampleBody) (vb_purchaseToken sampleBody)
               (subscriptions otherUserWorld)"
    by (simp add: upsertRejected_def otherUserWorld_eq verifiedInsert_def sampleBody_def)
  from verify_twice
         [OF v ok, where ?t1.0 = 7000 and ?t2.0 = 8000 and uid = "''u1''" and w = emptyWorld] acc
  have 1: "length (keyed ''u1'' ''com.yourapp.subscription.basic''
     (subscriptions (snd (verifyAndSaveSubscription validService 8000 (Some ''u1'') sampleBody
        (snd (verifyAndSaveSubscription validService 7000 (Some ''u1'') sampleBody emptyWorld))))))
     = 1"
    by (simp add: sampleBody_def emptyWorld_def keyed_def)
  from verify_twice
         [OF v ok, where ?t1.0 = 7000 and ?t2.0 = 7000 and uid = "''u1''" and w = emptyWorld] acc
  have 2: "subscriptions (snd (verifyAndSaveSubscription validService 7000 (Some ''u1'') sampleBody
        (snd (verifyAndSaveSubscription validService 7000 (Some ''u1'') sampleBody emptyWorld))))
     = subscriptions (snd (verifyAndSaveSubscription validService 7000 (Some ''u1'') sampleBody
        emptyWorld))"
    by simp
  from verify_twice
         [OF v ok, where ?t1.0 = 7000 and ?t2.0 = 8000 and uid = "''u1''" and w = otherUserWorld] rej
  have 3: "subscriptions (snd (verifyAndSaveSubscription validService 8000 (Some ''u1'') sampleBody
        (snd (verifyAndSaveSubscription validService 7000 (Some ''u1'') sampleBody otherUserWorld))))
     = subscriptions otherUserWorld"
    by simp
  from 1 2 3 show ?thesis by blast
qed

text \<open>
  Against C3 as stated: the first call, at 7000, creates the record with
  \<^verbatim>\<open>startDate\<close> 7000 and the second, at 8000, sets its \<^verbatim>\<open>startDate\<close> to 8000, so
  \<^verbatim>\<open>startDate\<close> is not written on creation only; and when another user has verified
  before, the insert is rejected (both records would lack an \<^verbatim>\<open>orderId\<close>), the call
  fails with status 500 and two calls leave no record of the user.
\<close>

theorem verify_twice_counterexample:
  "map startDate (subscriptions (snd (verifyAndSaveSubscription validService 7000 (Some ''u1'')
        sampleBody emptyWorld)))
     = [7000]
   \<and> map startDate (subscriptions (snd (verifyAndSaveSubscription validService 8000 (Some ''u1'')
        sampleBody
        (snd (verifyAndSaveSubscription validService 7000 (Some ''u1'') sampleBody emptyWorld)))))
     = [8000]
   \<and> fst (verifyAndSaveSubscription validService 7000 (Some ''u1'') sampleBody otherUserWorld)
     = Inl (CustomError ''Error processing subscription'' 500)
   \<and> keyed ''u1'' ''com.yourapp.subscription.basic''
       (subscriptions (snd (verifyAndSaveSubscription validService 8000 (Some ''u1'') sampleBody
          (snd (verifyAndSaveSubscription validService 7000 (Some ''u1'') sampleBody
             otherUserWorld)))))
     = []"
  by (simp add: verifyAndSaveSubscription_def verifyAndSaveSubscription_try_def Let_def
        validService_def verifyValid_def acknowledged_def sampleBody_def emptyWorld_def
        otherUserWorld_eq findOneAndUpdate_def duplicateKey_def others_def keyed_def
        verifiedInsert_def verifiedUpdate_def)




section \<open>Notification dispatch\<close>

text \<open>
  C4. With the quiet hours \<^verbatim>\<open>{enabled: true, startTime: "22:00", endTime: "08:00",
  timezone: "UTC"}\<close>, the switch of the category on, and at least one active token: an
  attempt at 23:30 UTC is within the quiet hours (the end bound, built on the current
  day, is before the start bound and is moved one day ahead) and is suppressed, with
  nothing handed to the push client; an attempt at 09:00 UTC is not within the quiet
  hours, and one multicast message with the active tokens is handed to the push client,
  whose result is returned.
\<close>

theorem quiet_hours_spanning_midnight:
  assumes "findOne (\<lambda>p. np_userId p = uid) prefs = Some i"
    and "quietHours (prefs ! i) =
           \<lparr>enabled = True, startTime = ''22:00'', endTime = ''08:00'', timezone = ''UTC''\<rparr>"
    and "switch (prefs ! i) ty"
    and "activeTokens uid dts \<noteq> []"
    and "toZonedTime clk (now clk) ''UTC'' = now clk"
  shows "(now clk mod msPerDay = (23 * 60 + 30) * 60000 \<longrightarrow>
            isWithinQuietHours clk (quietHours (prefs ! i))
            \<and> sendNotificationToUser send clk prefs dts uid ti bo ty da os =
                \<lparr>returned = Inr None, pushed = [],
                 console = [''User '' @ uid @ '' is in quiet hours'']\<rparr>)
       \<and> (now clk mod msPerDay = 9 * 60 * 60000 \<longrightarrow>
            \<not> isWithinQuietHours clk (quietHours (prefs ! i))
            \<and> pushed (sendNotificationToUser send clk prefs dts uid ti bo ty da os) =
                [multicast (activeTokens uid dts) ti bo da os]
            \<and> returned (sendNotificationToUser send clk prefs dts uid ti bo ty da os) =
                (case send (multicast (activeTokens uid dts) ti bo da os) of
                   Inr r \<Rightarrow> Inr (Some r) | Inl e \<Rightarrow> Inr None))"
proof (intro conjI impI)
  assume t: "now clk mod msPerDay = (23 * 60 + 30) * 60000"
  show q: "isWithinQuietHours clk (quietHours (prefs ! i))"
    using nightly_quiet [OF assms(5)] t by (simp add: assms(2))
  have "suppressedBy clk prefs dts uid ty = Some InQuietHours"
    using assms(1,3) q by (simp add: suppressedBy_def)
  from send_suppressed [OF this]
  show "sendNotificationToUser send clk prefs dts uid ti bo ty da os =
          \<lparr>returned = Inr None, pushed = [], console = [''User '' @ uid @ '' is in quiet hours'']\<rparr>"
    by simp
next
  assume t: "now clk mod msPerDay = 9 * 60 * 60000"
  show q: "\<not> isWithinQuietHours clk (quietHours (prefs ! i))"
    using nightly_quiet [OF assms(5)] t by (simp add: assms(2))
  have n: "suppressedBy clk prefs dts uid ty = None"
    using assms(1,3,4) q by (simp add: suppressedBy_def activeTokens_def)
  show "pushed (sendNotificationToUser send clk prefs dts uid ti bo ty da os) =
          [multicast (activeTokens uid dts) ti bo da os]"
    by (simp add: send_passed [OF n] split: sum.splits)
  show "returned (sendNotificationToUser send clk prefs dts uid ti bo ty da os) =
          (case send (multicast (activeTokens uid dts) ti bo da os) of
             Inr r \<Rightarrow> Inr (Some r) | Inl e \<Rightarrow> Inr None)"
    by (simp add: send_passed [OF n] split: sum.splits)
qed

theorem quiet_hours_spanning_midnight_witness:
  "sendNotificationToUser delivers (clockAt 84600000) [samplePreferences] [sampleToken] ''u1''
       ''Hi'' ''There'' NewWallpapers None None =
     \<lparr>returned = Inr None, pushed = [], console = [''User u1 is in quiet hours'']\<rparr>
   \<and> pushed (sendNotificationToUser delivers (clockAt 32400000) [samplePreferences] [sampleToken]
        ''u1'' ''Hi'' ''There'' NewWallpapers None None)
       = [multicast [''fcm-1''] ''Hi'' ''There'' None None]
   \<and> returned (sendNotificationToUser delivers (clockAt 32400000) [samplePreferences] [sampleToken]
        ''u1'' ''Hi'' ''There'' NewWallpapers None None)
       = Inr (Some 1)"
proof -
  have f: "findOne (\<lambda>p. np_userId p = ''u1'') [samplePreferences] = Some 0"
    by (simp add: samplePreferences_def)
  have q: "quietHours ([samplePreferences] ! 0) =
             \<lparr>enabled = True, startTime = ''22:00'', endTime = ''08:00'', timezone = ''UTC''\<rparr>"
    by (simp add: samplePreferences_def nightlyQuiet_def)
  have s: "switch ([samplePreferences] ! 0) NewWallpapers"
    by (simp add: samplePreferences_def)
  have a: "activeTokens ''u1'' [sampleToken] \<noteq> []"
    by (simp add: activeTokens_def sampleToken_def)
  have z: "toZonedTime (clockAt t) (now (clockAt t)) ''UTC'' = now (clockAt t)" for t
    by (simp add: clockAt_def utcZone_def)
  have night: "now (clockAt 84600000) mod msPerDay = (23 * 60 + 30) * 60000"
    by (simp add: clockAt_def msPerDay_def)
  have morning: "now (clockAt 32400000) mod msPerDay = 9 * 60 * 60000"
    by (simp add: clockAt_def msPerDay_def)
  have at: "activeTokens ''u1'' [sampleToken] = [''fcm-1'']"
    by (simp add: activeTokens_def sampleToken_def)
  note n = quiet_hours_spanning_midnight
             [OF f q s a z, of 84600000 delivers "''Hi''" "''There''" None None]
  note m = quiet_hours_spanning_midnight
             [OF f q s a z, of 32400000 delivers "''Hi''" "''There''" None None]
  from n night
  have 1: "sendNotificationToUser delivers (clockAt 84600000) [samplePreferences] [sampleToken]
             ''u1'' ''Hi'' ''There'' NewWallpapers None None =
           \<lparr>returned = Inr None, pushed = [], console = [''User u1 is in quiet hours'']\<rparr>"
    by simp
  from m morning
  have 2: "pushed (sendNotificationToUser delivers (clockAt 32400000) [samplePreferences]
             [sampleToken] ''u1'' ''Hi'' ''There'' NewWallpapers None None)
           = [multicast [''fcm-1''] ''Hi'' ''There'' None None]"
    by (simp add: at)
  from m morning
  have 3: "returned (sendNotificationToUser delivers (clockAt 32400000) [samplePreferences]
             [sampleToken] ''u1'' ''Hi'' ''There'' NewWallpapers None None)
           = Inr (Some 1)"
    by (simp add: at delivers_def multicast_def)
  from 1 2 3 show ?thesis by blast
qed

text \<open>
  C10. Let the quiet hours be enabled, with start and end in the \<^verbatim>\<open>HH:mm\<close> format and
  the end earlier in the day than the start. At every local time of the day before
  the end, \<^verbatim>\<open>isWithinQuietHours\<close> is false: the start bound is built on the current
  day and lies ahead. An attempt at such a time, for a user with these quiet hours, the
  switch of the category on and an active token, hands one multicast message to the push
  client.
\<close>

theorem early_morning_not_quiet:
  assumes "enabled q" and "timeRegex (startTime q)" and "timeRegex (endTime q)"
    and "minuteOfDay (endTime q) < minuteOfDay (startTime q)"
    and "toZonedTime clk (now clk) (timezone q) mod msPerDay < minuteOfDay (endTime q) * 60000"
  shows "\<not> isWithinQuietHours clk q
       \<and> (findOne (\<lambda>p. np_userId p = uid) prefs = Some i \<and> quietHours (prefs ! i) = q
            \<and> switch (prefs ! i) ty \<and> activeTokens uid dts \<noteq> [] \<longrightarrow>
          pushed (sendNotificationToUser send clk prefs dts uid ti bo ty da os) =
            [multicast (activeTokens uid dts) ti bo da os])"
proof -
  obtain sh sm where s: "hourMinute (startTime q) = (Some sh, Some sm)"
    using timeRegex_parse [OF assms(2)] by blast
  obtain eh em where e: "hourMinute (endTime q) = (Some eh, Some em)"
    using timeRegex_parse [OF assms(3)] by blast
  from s e assms(4,5) have nq: "\<not> isWithinQuietHours clk q"
    by (intro not_quiet_before_start [OF s e]) (simp_all add: minuteOfDay_def)
  have "pushed (sendNotificationToUser send clk prefs dts uid ti bo ty da os) =
          [multicast (activeTokens uid dts) ti bo da os]"
    if h: "findOne (\<lambda>p. np_userId p = uid) prefs = Some i" "quietHours (prefs ! i) = q"
      "switch (prefs ! i) ty" "activeTokens uid dts \<noteq> []"
  proof -
    have n: "suppressedBy clk prefs dts uid ty = None"
      using h nq by (simp add: suppressedBy_def activeTokens_def)
    show ?thesis by (simp add: send_passed [OF n] split: sum.splits)
  qed
  with nq show ?thesis by blast
qed

text \<open>At 03:00 UTC, inside the window from 22:00 to 08:00, the notification goes out.\<close>

theorem early_morning_not_quiet_witness:
  "\<not> isWithinQuietHours (clockAt 10800000) nightlyQuiet
   \<and> pushed (sendNotificationToUser delivers (clockAt 10800000) [samplePreferences] [sampleToken]
        ''u1'' ''Hi'' ''There'' NewWallpapers None None)
       = [multicast [''fcm-1''] ''Hi'' ''There'' None None]"
proof -
  have en: "enabled nightlyQuiet" by (simp add: nightlyQuiet_def)
  have rs: "timeRegex (startTime nightlyQuiet)" by (simp add: nightlyQuiet_def isDigit_def)
  have re: "timeRegex (endTime nightlyQuiet)" by (simp add: nightlyQuiet_def isDigit_def)
  have lt: "minuteOfDay (endTime nightlyQuiet) < minuteOfDay (startTime nightlyQuiet)"
    by (simp add: nightlyQuiet_def minuteOfDay_def nightly_parse)
  have tm: "toZonedTime (clockAt 10800000) (now (clockAt 10800000)) (timezone nightlyQuiet)
              mod msPerDay
            < minuteOfDay (endTime nightlyQuiet) * 60000"
    by (simp add: nightlyQuiet_def minuteOfDay_def nightly_parse clockAt_def utcZone_def
          msPerDay_def)
  have pre: "findOne (\<lambda>p. np_userId p = ''u1'') [samplePreferences] = Some 0
       \<and> quietHours ([samplePreferences] ! 0) = nightlyQuiet
       \<and> switch ([samplePreferences] ! 0) NewWallpapers \<and> activeTokens ''u1'' [sampleToken] \<noteq> []"
    by (simp add: samplePreferences_def activeTokens_def sampleToken_def)
  have at: "activeTokens ''u1'' [sampleToken] = [''fcm-1'']"
    by (simp add: activeTokens_def sampleToken_def)
  from early_morning_not_quiet
         [OF en rs re lt tm, of "''u1''" "[samplePreferences]" 0 NewWallpapers
            "[sampleToken]" delivers "''Hi''" "''There''" None None] pre at
  show ?thesis by simp
qed

text \<open>
  C8 (as the code has it). A call stopped by any of the four gates (no preferences, the
  switch of the category off, quiet hours, no active token) returns \<^verbatim>\<open>null\<close>, hands
  nothing to the push client, and writes the line of the gate to the console, which is
  no line at all for the last gate; and no call of \<^verbatim>\<open>sendNotificationToUser\<close> throws.
  The value returned is the same for the four gates and does not tell them apart.
\<close>

theorem suppression_returns_null:
  "(suppressedBy clk prefs dts uid ty = Some g \<longrightarrow>
      sendNotificationToUser send clk prefs dts uid ti bo ty da os =
        \<lparr>returned = Inr None, pushed = [], console = gateLog g uid ty\<rparr>)
   \<and> \<not> isl (returned (sendNotificationToUser send clk prefs dts uid ti bo ty da os))"
proof (cases "suppressedBy clk prefs dts uid ty")
  case None
  from send_passed [OF None, of send ti bo da os] show ?thesis
    using None by (auto split: sum.splits)
next
  case (Some g')
  from send_suppressed [OF Some, of send ti bo da os] show ?thesis
    using Some by auto
qed

theorem suppression_returns_null_witness:
  "sendNotificationToUser delivers (clockAt 0) [samplePreferences] [sampleToken] ''u1''
       ''Hi'' ''There'' MarketingUpdates None None =
     \<lparr>returned = Inr None, pushed = [],
      console = [''User u1 has disabled marketingUpdates notifications'']\<rparr>"
proof -
  have g: "suppressedBy (clockAt 0) [samplePreferences] [sampleToken] ''u1'' MarketingUpdates
             = Some PreferenceDisabled"
    by (simp add: suppressedBy_def samplePreferences_def)
  from suppression_returns_null
         [of "clockAt 0" "[samplePreferences]" "[sampleToken]" "''u1''"
            MarketingUpdates PreferenceDisabled delivers "''Hi''" "''There''" None None] g
  show ?thesis by simp
qed

text \<open>
  Against C8 as stated: four calls, each stopped by a different gate, return the same
  value, \<^verbatim>\<open>null\<close>, which names no gate.
\<close>

theorem suppression_reason_counterexample:
  "suppressedBy (clockAt 0) [] [sampleToken] ''u1'' MarketingUpdates = Some NoPreferences
   \<and> suppressedBy (clockAt 0) [samplePreferences] [sampleToken] ''u1'' MarketingUpdates
       = Some PreferenceDisabled
   \<and> suppressedBy (clockAt 84600000) [samplePreferences] [sampleToken] ''u1'' NewWallpapers
       = Some InQuietHours
   \<and> suppressedBy (clockAt 32400000) [samplePreferences] [] ''u1'' NewWallpapers
       = Some NoActiveTokens
   \<and> returned (sendNotificationToUser delivers (clockAt 0) [] [sampleToken] ''u1''
         ''Hi'' ''There'' MarketingUpdates None None) = Inr None
   \<and> returned (sendNotificationToUser delivers (clockAt 0) [samplePreferences] [sampleToken]
         ''u1'' ''Hi'' ''There'' MarketingUpdates None None) = Inr None
   \<and> returned (sendNotificationToUser delivers (clockAt 84600000) [samplePreferences]
         [sampleToken] ''u1'' ''Hi'' ''There'' NewWallpapers None None) = Inr None
   \<and> returned (sendNotificationToUser delivers (clockAt 32400000) [samplePreferences] []
         ''u1'' ''Hi'' ''There'' NewWallpapers None None) = Inr None"
  by (simp add: suppressedBy_def sendNotificationToUser_def sendNotificationToUser_try_def
        samplePreferences_def sampleToken_def nightlyQuiet_def clockAt_def utcZone_def
        isWithinQuietHours_def hourMinute_def Number_def isDigit_def digitValue_def
        setHours_def msPerDay_def Let_def)

end
